theory Spec2Isabelle
  imports Complex_Main
begin

section \<open>Angle arithmetic\<close>

text \<open>
  Angles are Python floats in the source; they are modelled as reals, so every statement
  below is about the exact arithmetic the code writes down, not about rounding.

  Python's \<^verbatim>\<open>x % p\<close> on floats with a positive divisor is \<open>x - p * floor (x / p)\<close>.
  The real remainder is always strictly below \<open>p\<close>. The float remainder of a tiny negative
  \<open>x\<close> is rounded and can be \<open>p\<close> itself (\<^verbatim>\<open>-1e-17 % 360.0\<close> is \<^verbatim>\<open>360.0\<close>); a bound
  meant to hold of the floats as well must therefore allow \<open>p\<close>.
\<close>

definition py_mod :: "real \<Rightarrow> real \<Rightarrow> real" where
  "py_mod x p = x - p * of_int \<lfloor>x / p\<rfloor>"

text \<open>Python's \<^verbatim>\<open>int(x)\<close> on a float truncates toward zero.\<close>

definition py_int :: "real \<Rightarrow> int" where
  "py_int x = (if 0 \<le> x then \<lfloor>x\<rfloor> else \<lceil>x\<rceil>)"

text \<open>
  The shortest-path computation written inline in both azimuth loops
  (\<^verbatim>\<open>telescope_7/modules/azimuth.py\<close> lines 62-64 and
  \<^verbatim>\<open>telescope_8/modules/azimuth.py\<close> lines 144-150):
  \<^verbatim>\<open>
    diff = target - current
    if abs(diff) > 180:
        diff = diff - 360 if diff > 0 else diff + 360
  \<close>
\<close>

definition shortest_diff :: "real \<Rightarrow> real \<Rightarrow> real" where
  "shortest_diff current target =
     (let diff = target - current in
      if \<bar>diff\<bar> > 180 then (if diff > 0 then diff - 360 else diff + 360) else diff)"

section \<open>Axis threads of \<^verbatim>\<open>telescope_7\<close>\<close>

text \<open>What the loop last told the gpiozero \<^verbatim>\<open>Motor\<close> to do.\<close>

datatype motor_cmd = MotorStopped | MotorForward real | MotorBackward real

subsection \<open>\<^verbatim>\<open>AzimuthMotorThread\<close>\<close>

record az_thread =
  current_az :: real
  target_az :: real
  az_speed :: real
  az_motor :: motor_cmd

text \<open>The state after \<^verbatim>\<open>__init__\<close> (with a motor that initialised).\<close>

definition az_init :: az_thread where
  "az_init = \<lparr>current_az = 0, target_az = 0, az_speed = 1, az_motor = MotorStopped\<rparr>"

definition az_set_target :: "az_thread \<Rightarrow> real \<Rightarrow> az_thread" where
  "az_set_target s target = s\<lparr>target_az := py_mod target 360\<rparr>"

definition az_set_speed :: "az_thread \<Rightarrow> real \<Rightarrow> az_thread" where
  "az_set_speed s v = s\<lparr>az_speed := max (1 / 10) (min 5 v)\<rparr>"

text \<open>
  One iteration of the \<^verbatim>\<open>while self.running\<close> loop of \<^verbatim>\<open>run\<close>. The flag \<open>io_ok\<close>
  says whether the motor call of this iteration returns; when it raises, the
  \<^verbatim>\<open>except\<close> branch stops the motor and the position assignment is never reached.
\<close>

definition az_tick :: "bool \<Rightarrow> az_thread \<Rightarrow> az_thread" where
  "az_tick io_ok s =
     (let diff = shortest_diff (current_az s) (target_az s) in
      if \<bar>diff\<bar> < 1 / 10 then s\<lparr>az_motor := MotorStopped\<rparr>
      else if \<not> io_ok then s\<lparr>az_motor := MotorStopped\<rparr>
      else if diff > 0 then
        s\<lparr>az_motor := MotorForward (az_speed s / 5),
          current_az := py_mod (current_az s + az_speed s * (1 / 10)) 360\<rparr>
      else
        s\<lparr>az_motor := MotorBackward (az_speed s / 5),
          current_az := py_mod (current_az s - az_speed s * (1 / 10)) 360\<rparr>)"

text \<open>
  The buttons of \<^verbatim>\<open>AzimuthControlWidget\<close>: stop re-targets the current position,
  left and right re-target ten degrees away.
\<close>

definition az_stop_motor :: "az_thread \<Rightarrow> az_thread" where
  "az_stop_motor s = az_set_target s (current_az s)"

definition az_move_left :: "az_thread \<Rightarrow> az_thread" where
  "az_move_left s = az_set_target s (current_az s - 10)"

definition az_move_right :: "az_thread \<Rightarrow> az_thread" where
  "az_move_right s = az_set_target s (current_az s + 10)"

datatype az_op = AzSetTarget real | AzSetSpeed real | AzTick bool
  | AzStop | AzMoveLeft | AzMoveRight

fun az_apply :: "az_thread \<Rightarrow> az_op \<Rightarrow> az_thread" where
  "az_apply s (AzSetTarget t) = az_set_target s t"
| "az_apply s (AzSetSpeed v) = az_set_speed s v"
| "az_apply s (AzTick io_ok) = az_tick io_ok s"
| "az_apply s AzStop = az_stop_motor s"
| "az_apply s AzMoveLeft = az_move_left s"
| "az_apply s AzMoveRight = az_move_right s"

definition az_run :: "az_thread \<Rightarrow> az_op list \<Rightarrow> az_thread" where
  "az_run s ops = foldl az_apply s ops"

text \<open>\<open>n\<close> loop iterations in a row, the motor answering each time.\<close>

fun az_ticks :: "nat \<Rightarrow> az_thread \<Rightarrow> az_thread" where
  "az_ticks 0 s = s"
| "az_ticks (Suc n) s = az_ticks n (az_tick True s)"

subsection \<open>\<^verbatim>\<open>AltitudeMotorThread\<close>\<close>

record alt_thread =
  current_alt :: real
  target_alt :: real
  alt_speed :: real
  alt_motor :: motor_cmd

definition alt_init :: alt_thread where
  "alt_init = \<lparr>current_alt = 0, target_alt = 0, alt_speed = 1, alt_motor = MotorStopped\<rparr>"

definition alt_set_target :: "alt_thread \<Rightarrow> real \<Rightarrow> alt_thread" where
  "alt_set_target s target = s\<lparr>target_alt := max 0 (min 90 target)\<rparr>"

definition alt_set_speed :: "alt_thread \<Rightarrow> real \<Rightarrow> alt_thread" where
  "alt_set_speed s v = s\<lparr>alt_speed := max (1 / 10) (min 5 v)\<rparr>"

text \<open>
  One loop iteration of \<^verbatim>\<open>run\<close>: the position moves by \<^verbatim>\<open>speed * 0.1\<close> and is
  clamped afterwards; a motor call that raises skips both.
\<close>

definition alt_tick :: "bool \<Rightarrow> alt_thread \<Rightarrow> alt_thread" where
  "alt_tick io_ok s =
     (let diff = target_alt s - current_alt s in
      if \<bar>diff\<bar> < 1 / 10 then s\<lparr>alt_motor := MotorStopped\<rparr>
      else if \<not> io_ok then s\<lparr>alt_motor := MotorStopped\<rparr>
      else if diff > 0 then
        s\<lparr>alt_motor := MotorForward (alt_speed s / 5),
          current_alt := max 0 (min 90 (current_alt s + alt_speed s * (1 / 10)))\<rparr>
      else
        s\<lparr>alt_motor := MotorBackward (alt_speed s / 5),
          current_alt := max 0 (min 90 (current_alt s - alt_speed s * (1 / 10)))\<rparr>)"

definition alt_stop_motor :: "alt_thread \<Rightarrow> alt_thread" where
  "alt_stop_motor s = alt_set_target s (current_alt s)"

definition alt_move_up :: "alt_thread \<Rightarrow> alt_thread" where
  "alt_move_up s = alt_set_target s (current_alt s + 5)"

definition alt_move_down :: "alt_thread \<Rightarrow> alt_thread" where
  "alt_move_down s = alt_set_target s (current_alt s - 5)"

datatype alt_op = AltSetTarget real | AltSetSpeed real | AltTick bool
  | AltStop | AltMoveUp | AltMoveDown

fun alt_apply :: "alt_thread \<Rightarrow> alt_op \<Rightarrow> alt_thread" where
  "alt_apply s (AltSetTarget t) = alt_set_target s t"
| "alt_apply s (AltSetSpeed v) = alt_set_speed s v"
| "alt_apply s (AltTick io_ok) = alt_tick io_ok s"
| "alt_apply s AltStop = alt_stop_motor s"
| "alt_apply s AltMoveUp = alt_move_up s"
| "alt_apply s AltMoveDown = alt_move_down s"

definition alt_run :: "alt_thread \<Rightarrow> alt_op list \<Rightarrow> alt_thread" where
  "alt_run s ops = foldl alt_apply s ops"

section \<open>\<^verbatim>\<open>AzimuthThread\<close> of \<^verbatim>\<open>telescope_8\<close>\<close>

text \<open>
  The thread with a motor object present (without one the loop never moves). The target
  is an integer (\<^verbatim>\<open>int(target)\<close> clamped into 0..360), the position moves in steps
  of 0.2. The loop body runs under a non-recursive mutex that is still held when
  the \<^verbatim>\<open>except\<close> branch calls \<^verbatim>\<open>stop_motors\<close>, which takes the same mutex: a motor
  call that raises leaves the thread waiting for itself. \<open>az8_hung\<close> records that; every
  later operation on the thread waits for the mutex as well and changes nothing.
\<close>

record az8_thread =
  current_position :: real
  target_position :: int
  az8_motor :: motor_cmd
  az8_hung :: bool

definition az8_init :: az8_thread where
  "az8_init = \<lparr>current_position = 0, target_position = 0,
                az8_motor = MotorStopped, az8_hung = False\<rparr>"

definition set_azimuth :: "az8_thread \<Rightarrow> real \<Rightarrow> az8_thread" where
  "set_azimuth s target =
     (if az8_hung s then s
      else s\<lparr>target_position := max 0 (min 360 (py_int target))\<rparr>)"

definition stop_motors :: "az8_thread \<Rightarrow> az8_thread" where
  "stop_motors s = (if az8_hung s then s else s\<lparr>az8_motor := MotorStopped\<rparr>)"

text \<open>The wrap of lines 163-167: above 360 goes to 0, below 0 goes to 360.\<close>

definition az8_wrap :: "real \<Rightarrow> real" where
  "az8_wrap p = (if p > 360 then 0 else if p < 0 then 360 else p)"

text \<open>The arrival test of lines 172-177, after the move.\<close>

definition az8_arrive :: "az8_thread \<Rightarrow> az8_thread" where
  "az8_arrive s =
     (if \<bar>current_position s - of_int (target_position s)\<bar> < 2 / 10
      then s\<lparr>az8_motor := MotorStopped, current_position := of_int (target_position s)\<rparr>
      else s)"

definition az8_tick :: "bool \<Rightarrow> az8_thread \<Rightarrow> az8_thread" where
  "az8_tick io_ok s =
     (if az8_hung s then s
      else if current_position s \<noteq> of_int (target_position s) then
        (if \<not> io_ok then s\<lparr>az8_hung := True\<rparr>
         else if shortest_diff (current_position s) (of_int (target_position s)) > 0 then
           az8_arrive (s\<lparr>az8_motor := MotorForward 1,
                         current_position := az8_wrap (current_position s + 2 / 10)\<rparr>)
         else
           az8_arrive (s\<lparr>az8_motor := MotorBackward 1,
                         current_position := az8_wrap (current_position s - 2 / 10)\<rparr>))
      else s)"

datatype az8_op = Az8SetAzimuth real | Az8Tick bool | Az8StopMotors

fun az8_apply :: "az8_thread \<Rightarrow> az8_op \<Rightarrow> az8_thread" where
  "az8_apply s (Az8SetAzimuth t) = set_azimuth s t"
| "az8_apply s (Az8Tick io_ok) = az8_tick io_ok s"
| "az8_apply s Az8StopMotors = stop_motors s"

definition az8_run :: "az8_thread \<Rightarrow> az8_op list \<Rightarrow> az8_thread" where
  "az8_run s ops = foldl az8_apply s ops"

section \<open>Legal domains of the axis angles\<close>

text \<open>
  Altitude is a closed range, and so is the azimuth in both variants. The azimuth of
  \<^verbatim>\<open>telescope_8\<close> is clamped and wrapped between 0 and 360 with both ends allowed. The
  azimuth of \<^verbatim>\<open>telescope_7\<close> is a remainder modulo 360; over the reals that never is
  360, on the floats of the code it can be, so the range is closed at 360 too.
\<close>

definition alt_legal :: "alt_thread \<Rightarrow> bool" where
  "alt_legal s = (0 \<le> current_alt s \<and> current_alt s \<le> 90
                  \<and> 0 \<le> target_alt s \<and> target_alt s \<le> 90)"

definition az_legal :: "az_thread \<Rightarrow> bool" where
  "az_legal s = (0 \<le> current_az s \<and> current_az s \<le> 360
                 \<and> 0 \<le> target_az s \<and> target_az s \<le> 360)"

definition az8_legal :: "az8_thread \<Rightarrow> bool" where
  "az8_legal s = (0 \<le> current_position s \<and> current_position s \<le> 360
                  \<and> 0 \<le> target_position s \<and> target_position s \<le> 360)"



section \<open>Moon phase names\<close>

text \<open>
  \<^verbatim>\<open>MoonPositionThread.calculate_moon_phase\<close> of \<^verbatim>\<open>telescope/modules/moon.py\<close>: the
  name is chosen from the illumination percentage, branch by branch as written.
\<close>

definition calculate_moon_phase :: "real \<Rightarrow> string" where
  "calculate_moon_phase illumination =
     (if illumination \<ge> 98 then ''Full Moon''
      else if illumination \<ge> 50 then ''Waning Gibbous''
      else if illumination \<ge> 2 then ''Waning Crescent''
      else if illumination \<le> 0 then ''New Moon''
      else if illumination \<le> 50 then ''Waxing Crescent''
      else ''Waxing Gibbous'')"

text \<open>
  The text chosen in \<^verbatim>\<open>MoonTrackingWidget.update_moon_phase\<close> of \<^verbatim>\<open>telescope_7\<close> from
  \<^verbatim>\<open>ephem\<close>'s \<^verbatim>\<open>moon.phase\<close>, the percentage of the disc that is lit.
\<close>

definition phase_text :: "real \<Rightarrow> string" where
  "phase_text phase =
     (if phase < 10 then ''New Moon''
      else if phase < 40 then ''Waxing Crescent''
      else if phase < 60 then ''First Quarter''
      else if phase < 90 then ''Waxing Gibbous''
      else if phase < 100 then ''Full Moon''
      else if phase < 140 then ''Waning Gibbous''
      else if phase < 160 then ''Last Quarter''
      else ''Waning Crescent'')"

text \<open>
  \<^verbatim>\<open>telescope_8\<close> keeps a table \<^verbatim>\<open>MOON_PHASES\<close> of names with their place in the cycle
  (the emoji column is left out) and takes the entry closest to the phase; Python's
  \<^verbatim>\<open>min\<close> keeps the first of several closest entries.
\<close>

definition MOON_PHASES :: "(string \<times> real) list" where
  "MOON_PHASES =
     [(''New Moon'', 0), (''Waxing Crescent'', 1 / 8), (''First Quarter'', 1 / 4),
      (''Waxing Gibbous'', 3 / 8), (''Full Moon'', 1 / 2), (''Waning Gibbous'', 5 / 8),
      (''Last Quarter'', 3 / 4), (''Waning Crescent'', 7 / 8)]"

fun min_by :: "('a \<Rightarrow> real) \<Rightarrow> 'a \<Rightarrow> 'a list \<Rightarrow> 'a" where
  "min_by key best [] = best"
| "min_by key best (x # xs) = min_by key (if key x < key best then x else best) xs"

definition get_moon_phase :: "real \<Rightarrow> string \<times> real" where
  "get_moon_phase phase =
     (let p = py_mod phase 1 in
      min_by (\<lambda>x. \<bar>snd x - p\<bar>) (hd MOON_PHASES) (tl MOON_PHASES))"

section \<open>Position calculations that fail\<close>

text \<open>
  The ephemeris libraries (\<^verbatim>\<open>ephem\<close>, \<^verbatim>\<open>astropy\<close>) are outside the repository. A call
  into them either returns numbers or raises; the calculation functions take that outcome
  as an argument.
\<close>

datatype 'a outcome = Raises string | Returns 'a

subsection \<open>\<^verbatim>\<open>MoonCalculationThread\<close> of \<^verbatim>\<open>telescope_8\<close>\<close>

record moon_data =
  altitude :: real
  azimuth :: real
  phase :: real
  illumination :: real
  phase_name :: string
  tracking :: bool
  visible :: bool

text \<open>
  The thread with its cached dictionary and the values it has emitted on its two signals.
\<close>

record moon_thread =
  current_moon_data :: moon_data
  moon_tracking :: bool
  status_updated :: "string list"
  moon_data_updated :: "moon_data list"

definition moon_thread_init :: moon_thread where
  "moon_thread_init =
     \<lparr>current_moon_data =
        \<lparr>altitude = 0, azimuth = 0, phase = 0, illumination = 0,
         phase_name = ''New Moon'', tracking = False, visible = False\<rparr>,
      moon_tracking = False, status_updated = [], moon_data_updated = []\<rparr>"

definition start_tracking :: "moon_thread \<Rightarrow> moon_thread" where
  "start_tracking s =
     s\<lparr>moon_tracking := True,
       current_moon_data := (current_moon_data s)\<lparr>tracking := True\<rparr>,
       status_updated := status_updated s @ [''Moon tracking started'']\<rparr>"

definition stop_tracking :: "moon_thread \<Rightarrow> moon_thread" where
  "stop_tracking s =
     s\<lparr>moon_tracking := False,
       current_moon_data := (current_moon_data s)\<lparr>tracking := False\<rparr>,
       status_updated := status_updated s @ [''Moon tracking stopped'']\<rparr>"

text \<open>
  \<^verbatim>\<open>calculate_moon_position\<close>: the outcome of the \<^verbatim>\<open>astropy\<close> calls is the triple of
  altitude, azimuth and Sun-Moon separation in degrees. The \<^verbatim>\<open>except\<close> branch reports on
  \<^verbatim>\<open>status_updated\<close> and returns the cached dictionary.
\<close>

definition calculate_moon_position ::
  "(real \<times> real \<times> real) outcome \<Rightarrow> moon_thread \<Rightarrow> moon_data \<times> moon_thread" where
  "calculate_moon_position r s =
     (case r of
        Returns (moon_altitude, moon_azimuth, phase_angle) \<Rightarrow>
          (let illum = (1 + cos (phase_angle * pi / 180)) / 2 * 100;
               ph = (if phase_angle \<le> 180 then phase_angle / 360
                     else (360 - phase_angle) / 360 + 1 / 2)
           in (\<lparr>altitude = moon_altitude, azimuth = moon_azimuth, phase = ph,
                illumination = illum, phase_name = fst (get_moon_phase ph),
                tracking = moon_tracking s, visible = (moon_altitude > 0)\<rparr>, s))
      | Raises e \<Rightarrow>
          (current_moon_data s,
           s\<lparr>status_updated := status_updated s @ [''Calculation error: '' @ e]\<rparr>))"

text \<open>One iteration of \<^verbatim>\<open>run\<close>: calculate, cache, emit.\<close>

definition moon_run_iter :: "(real \<times> real \<times> real) outcome \<Rightarrow> moon_thread \<Rightarrow> moon_thread" where
  "moon_run_iter r s =
     (let (moon_data, s1) = calculate_moon_position r s in
      s1\<lparr>current_moon_data := moon_data,
         moon_data_updated := moon_data_updated s1 @ [moon_data]\<rparr>)"

section \<open>The coordinator of \<^verbatim>\<open>telescope_7\<close>\<close>

text \<open>
  \<^verbatim>\<open>TelescopeControllerGUI\<close> with its Sun widget, the two axis widgets and their motor
  threads. The state holds what the handlers read and write; \<open>events\<close> is the trace of
  what they send out: dialogs, signals to the main window, database log operations, and
  every \<^verbatim>\<open>set_target\<close> call made on a motor thread.
\<close>

datatype check_state = Unchecked | PartiallyChecked | Checked

datatype gui_event =
    Critical string string
  | Information string
  | AutoTrackCheck bool
  | AltTarget real
  | AzTarget real
  | DbLog string string real real

record gui =
  filter_check :: bool
  filter_checked :: bool
  slew_btn_enabled :: bool
  auto_track_btn_enabled :: bool
  auto_track_btn :: bool
  auto_track :: bool
  alt_slider :: int
  az_slider :: int
  alt_motor_thread :: alt_thread
  az_motor_thread :: az_thread
  events :: "gui_event list"

definition gui_init :: gui where
  "gui_init =
     \<lparr>filter_check = False, filter_checked = False, slew_btn_enabled = False,
      auto_track_btn_enabled = False, auto_track_btn = False, auto_track = False,
      alt_slider = 0, az_slider = 0, alt_motor_thread = alt_init,
      az_motor_thread = az_init, events = []\<rparr>"

definition emit :: "gui \<Rightarrow> gui_event \<Rightarrow> gui" where
  "emit st e = st\<lparr>events := events st @ [e]\<rparr>"

definition state_of :: "bool \<Rightarrow> check_state" where
  "state_of b = (if b then Checked else Unchecked)"

subsection \<open>Motor threads and sliders\<close>

definition motor_set_target_alt :: "gui \<Rightarrow> real \<Rightarrow> gui" where
  "motor_set_target_alt st v =
     emit (st\<lparr>alt_motor_thread := alt_set_target (alt_motor_thread st) v\<rparr>) (AltTarget v)"

definition motor_set_target_az :: "gui \<Rightarrow> real \<Rightarrow> gui" where
  "motor_set_target_az st v =
     emit (st\<lparr>az_motor_thread := az_set_target (az_motor_thread st) v\<rparr>) (AzTarget v)"

text \<open>
  \<^verbatim>\<open>QSlider.setValue\<close>: the value is bounded by the slider's range (0..90 and 0..360),
  and \<^verbatim>\<open>valueChanged\<close> fires only when the value changes; its slot is
  \<^verbatim>\<open>lambda v: self.motor_thread.set_target(float(v))\<close>.
\<close>

definition alt_slider_setValue :: "gui \<Rightarrow> int \<Rightarrow> gui" where
  "alt_slider_setValue st v =
     (let v' = max 0 (min 90 v) in
      if v' = alt_slider st then st
      else motor_set_target_alt (st\<lparr>alt_slider := v'\<rparr>) (of_int v'))"

definition az_slider_setValue :: "gui \<Rightarrow> int \<Rightarrow> gui" where
  "az_slider_setValue st v =
     (let v' = max 0 (min 360 v) in
      if v' = az_slider st then st
      else motor_set_target_az (st\<lparr>az_slider := v'\<rparr>) (of_int v'))"

text \<open>Python's \<^verbatim>\<open>round\<close> on a float: to the nearest integer, a tie to the even one.\<close>

definition py_round :: "real \<Rightarrow> int" where
  "py_round x =
     (let f = \<lfloor>x\<rfloor>; d = x - of_int f in
      if d < 1 / 2 then f else if d > 1 / 2 then f + 1
      else if even f then f else f + 1)"

text \<open>
  The slots of the motor threads' \<^verbatim>\<open>position_signal\<close>
  (\<^verbatim>\<open>update_altitude_display\<close>, \<^verbatim>\<open>update_azimuth_display\<close>) move the slider.
\<close>

definition update_altitude_display :: "gui \<Rightarrow> real \<Rightarrow> gui" where
  "update_altitude_display st v = alt_slider_setValue st (py_round v)"

definition update_azimuth_display :: "gui \<Rightarrow> real \<Rightarrow> gui" where
  "update_azimuth_display st v = az_slider_setValue st (py_round v)"

subsection \<open>Slew handlers of the main window\<close>

text \<open>
  The part both handlers share after their first lines: clamp and wrap, hand the targets
  to the motor threads, move the sliders, log. The status bar and the assistant's context
  only display.
\<close>

definition slew_axes :: "gui \<Rightarrow> string \<Rightarrow> string \<Rightarrow> real \<Rightarrow> real \<Rightarrow> gui" where
  "slew_axes st name kind t_alt t_az =
     (let safe_alt = max 0 (min 90 t_alt);
          safe_az = py_mod t_az 360;
          st1 = motor_set_target_alt st safe_alt;
          st2 = alt_slider_setValue st1 (py_int safe_alt);
          st3 = motor_set_target_az st2 safe_az;
          st4 = az_slider_setValue st3 (py_int safe_az)
      in emit st4 (DbLog name kind safe_alt safe_az))"

definition main_slew_to_moon_position :: "gui \<Rightarrow> real \<Rightarrow> real \<Rightarrow> gui" where
  "main_slew_to_moon_position st t_alt t_az =
     slew_axes st ''Moon'' ''goto_moon'' t_alt t_az"

definition main_slew_to_sun_position :: "gui \<Rightarrow> real \<Rightarrow> real \<Rightarrow> gui" where
  "main_slew_to_sun_position st t_alt t_az =
     (if \<not> filter_check st then
        emit st (Critical ''SOLAR WARNING''
                   (''SOLAR FILTER REQUIRED!'' @ [CHR 0x0A] @ ''Aborting sun slew.''))
      else slew_axes st ''Sun'' ''goto_sun'' t_alt t_az)"

subsection \<open>\<^verbatim>\<open>SunTrackingThread\<close> and \<^verbatim>\<open>SunTrackingWidget\<close>\<close>

text \<open>
  \<^verbatim>\<open>calculate_sun_position\<close>: \<^verbatim>\<open>ephem\<close> answers in radians. The \<^verbatim>\<open>except\<close> branch
  emits \<^verbatim>\<open>error_signal\<close>, whose slot \<^verbatim>\<open>show_error\<close> opens a dialog, and returns
  \<^verbatim>\<open>0.0, 0.0\<close>.
\<close>

definition show_error :: "gui \<Rightarrow> string \<Rightarrow> gui" where
  "show_error st error_msg = emit st (Critical ''Error'' (take 50 error_msg))"

definition calculate_sun_position ::
  "(real \<times> real) outcome \<Rightarrow> gui \<Rightarrow> (real \<times> real) \<times> gui" where
  "calculate_sun_position r st =
     (case r of
        Returns (sun_alt, sun_az) \<Rightarrow> ((sun_alt * 180 / pi, sun_az * 180 / pi), st)
      | Raises e \<Rightarrow> ((0, 0), show_error st (''Calc Error: '' @ take 25 e @ ''...'')))"

definition set_auto_track :: "gui \<Rightarrow> bool \<Rightarrow> gui" where
  "set_auto_track st enable = st\<lparr>auto_track := enable\<rparr>"

text \<open>
  \<^verbatim>\<open>update_sun_position\<close> sets two labels and emits \<^verbatim>\<open>slew_to_sun\<close>, which the main
  window connects to its Sun handler.
\<close>

definition update_sun_position :: "gui \<Rightarrow> real \<Rightarrow> real \<Rightarrow> gui" where
  "update_sun_position st alt az = main_slew_to_sun_position st alt az"

definition slew_to_sun_position :: "gui \<Rightarrow> (real \<times> real) outcome \<Rightarrow> gui" where
  "slew_to_sun_position st r =
     (if \<not> filter_checked st then
        emit st (Critical ''SAFETY WARNING''
                   (''Solar filter required!'' @ [CHR 0x0A] @ ''Damage risk!''))
      else
        (let ((alt, az), st1) = calculate_sun_position r st;
             st2 = update_sun_position st1 alt az
         in emit st2 (Information ''Slew to Sun'')))"

text \<open>
  The body of \<^verbatim>\<open>toggle_auto_track\<close> after its guard: the thread's flag is set, the main
  window is told, a dialog confirms.
\<close>

definition auto_track_apply :: "gui \<Rightarrow> bool \<Rightarrow> gui" where
  "auto_track_apply st enable =
     emit (emit (set_auto_track st enable) (AutoTrackCheck enable)) (Information ''Auto Track'')"

text \<open>
  \<^verbatim>\<open>self.auto_track_btn.setChecked(False)\<close>: when the box was checked, \<^verbatim>\<open>stateChanged\<close>
  fires with \<^verbatim>\<open>Qt.Unchecked\<close> and \<^verbatim>\<open>toggle_auto_track\<close> runs again inside the call;
  with \<^verbatim>\<open>enable\<close> false it passes its guard, so that nested run is
  \<open>auto_track_apply\<close> with \<open>False\<close>.
\<close>

definition auto_track_btn_uncheck :: "gui \<Rightarrow> gui" where
  "auto_track_btn_uncheck st =
     (if auto_track_btn st then auto_track_apply (st\<lparr>auto_track_btn := False\<rparr>) False
      else st)"

definition toggle_auto_track :: "gui \<Rightarrow> check_state \<Rightarrow> gui" where
  "toggle_auto_track st state =
     (let enable = (state = Checked) in
      if enable \<and> \<not> filter_checked st then
        auto_track_btn_uncheck (emit st (Critical ''SAFETY ERROR'' ''Solar filter required!''))
      else auto_track_apply st enable)"

definition toggle_filter :: "gui \<Rightarrow> check_state \<Rightarrow> gui" where
  "toggle_filter st state =
     (let fc = (state = Checked);
          st1 = st\<lparr>filter_checked := fc, slew_btn_enabled := fc,
                   auto_track_btn_enabled := fc\<rparr>
      in if fc then st1
         else if auto_track_btn st1 then set_auto_track (auto_track_btn_uncheck st1) False
         else st1)"

text \<open>One iteration of \<^verbatim>\<open>SunTrackingThread.run\<close>, its signal delivered at once.\<close>

definition sun_run_iter :: "gui \<Rightarrow> (real \<times> real) outcome \<Rightarrow> gui" where
  "sun_run_iter st r =
     (if auto_track st then
        (let ((alt, az), st1) = calculate_sun_position r st in update_sun_position st1 alt az)
      else st)"

subsection \<open>What the user and the threads can do\<close>

text \<open>
  Clicking a check box flips it and runs the slot of \<^verbatim>\<open>stateChanged\<close>; a disabled
  control takes no clicks. \<open>set_filter_check\<close> is the solar-filter confirmation being
  given or withdrawn.
\<close>

definition set_filter_check :: "gui \<Rightarrow> bool \<Rightarrow> gui" where
  "set_filter_check st b =
     (if filter_check st = b then st
      else toggle_filter (st\<lparr>filter_check := b\<rparr>) (state_of b))"

definition click_auto_track :: "gui \<Rightarrow> gui" where
  "click_auto_track st =
     (if auto_track_btn_enabled st then
        toggle_auto_track (st\<lparr>auto_track_btn := \<not> auto_track_btn st\<rparr>)
          (state_of (\<not> auto_track_btn st))
      else st)"

definition click_slew :: "gui \<Rightarrow> (real \<times> real) outcome \<Rightarrow> gui" where
  "click_slew st r = (if slew_btn_enabled st then slew_to_sun_position st r else st)"

text \<open>
  \<open>SunPositionSignal\<close> is a \<^verbatim>\<open>position_signal\<close> of the Sun thread reaching its slot by
  itself: the thread reads \<^verbatim>\<open>auto_track\<close> before it calculates, and the signal crosses
  threads, so a position can arrive after the flag has changed.
\<close>

datatype gui_op =
    SetFilter bool
  | ClickAutoTrack
  | ClickSlew "(real \<times> real) outcome"
  | SunThreadIter "(real \<times> real) outcome"
  | SunPositionSignal real real
  | MoonPositionSignal real real
  | AltIter bool
  | AzIter bool
  | AltPositionSignal real
  | AzPositionSignal real

fun gui_apply :: "gui \<Rightarrow> gui_op \<Rightarrow> gui" where
  "gui_apply st (SetFilter b) = set_filter_check st b"
| "gui_apply st ClickAutoTrack = click_auto_track st"
| "gui_apply st (ClickSlew r) = click_slew st r"
| "gui_apply st (SunThreadIter r) = sun_run_iter st r"
| "gui_apply st (SunPositionSignal alt az) = update_sun_position st alt az"
| "gui_apply st (MoonPositionSignal alt az) = main_slew_to_moon_position st alt az"
| "gui_apply st (AltIter io_ok) =
     st\<lparr>alt_motor_thread := alt_tick io_ok (alt_motor_thread st)\<rparr>"
| "gui_apply st (AzIter io_ok) =
     st\<lparr>az_motor_thread := az_tick io_ok (az_motor_thread st)\<rparr>"
| "gui_apply st (AltPositionSignal v) = update_altitude_display st v"
| "gui_apply st (AzPositionSignal v) = update_azimuth_display st v"

definition gui_run :: "gui \<Rightarrow> gui_op list \<Rightarrow> gui" where
  "gui_run st ops = foldl gui_apply st ops"

text \<open>
  What holds between the handlers: the widget's flag mirrors the filter box, both Sun
  controls are enabled exactly when it is set, and the thread's flag mirrors the
  auto-track box, which is never checked without the filter.
\<close>

definition gui_inv :: "gui \<Rightarrow> bool" where
  "gui_inv st =
     (filter_checked st = filter_check st
      \<and> slew_btn_enabled st = filter_check st
      \<and> auto_track_btn_enabled st = filter_check st
      \<and> auto_track st = auto_track_btn st
      \<and> (filter_check st \<or> \<not> auto_track st))"

section \<open>Properties of the angle arithmetic\<close>

lemma py_mod_range: "0 < p \<Longrightarrow> 0 \<le> py_mod x p \<and> py_mod x p < p"
proof -
  assume p: "0 < p"
  have lo: "of_int \<lfloor>x / p\<rfloor> \<le> x / p" by simp
  have hi: "x / p < of_int \<lfloor>x / p\<rfloor> + 1" by linarith
  from lo p have a: "p * of_int \<lfloor>x / p\<rfloor> \<le> x"
    by (metis mult.commute pos_le_divide_eq)
  from hi p have b: "x < p * (of_int \<lfloor>x / p\<rfloor> + 1)"
    by (metis mult.commute pos_divide_less_eq)
  from a b show ?thesis
    by (simp add: py_mod_def algebra_simps)
qed

lemma py_mod_360: "0 \<le> py_mod x 360" "py_mod x 360 < 360"
  using py_mod_range [of 360 x] by simp_all

lemma py_mod_360_le: "py_mod x 360 \<le> 360"
  using py_mod_360 (2) [of x] by simp

text \<open>A value of the half-open turn that differs from \<open>x\<close> by whole turns is \<open>x % 360\<close>.\<close>

lemma py_mod_unique:
  assumes "0 \<le> y" "y < 360" "x = y + 360 * of_int k"
  shows "py_mod x 360 = y"
proof -
  have e: "x / 360 = of_int k + y / 360" using assms(3) by simp
  have "\<lfloor>x / 360\<rfloor> = \<lfloor>of_int k + y / 360\<rfloor>" by (simp only: e)
  also have "\<dots> = k + \<lfloor>y / 360\<rfloor>" by (metis int_add_floor)
  also have "\<lfloor>y / 360\<rfloor> = 0" using assms(1,2) by (simp add: floor_eq_iff)
  finally show ?thesis using assms(3) by (simp add: py_mod_def)
qed

lemma py_mod_idem: "py_mod (py_mod x 360) 360 = py_mod x 360"
  using py_mod_360 [of x] py_mod_unique [of "py_mod x 360" "py_mod x 360" 0] by simp

lemma shortest_diff_cases:
  "shortest_diff c t = t - c \<or> shortest_diff c t = t - c - 360
   \<or> shortest_diff c t = t - c + 360"
  by (simp add: shortest_diff_def Let_def)

lemma shortest_diff_bound:
  assumes "0 \<le> c" "c \<le> 360" "0 \<le> t" "t \<le> 360"
  shows "\<bar>shortest_diff c t\<bar> \<le> 180"
  using assms by (auto simp: shortest_diff_def Let_def)

lemma shortest_diff_reaches:
  "py_mod (c + shortest_diff c t) 360 = py_mod t 360"
proof -
  have r: "0 \<le> py_mod t 360 \<and> py_mod t 360 < 360" by (rule py_mod_range) simp
  have t: "t = py_mod t 360 + 360 * of_int \<lfloor>t / 360\<rfloor>" by (simp add: py_mod_def)
  consider "shortest_diff c t = t - c" | "shortest_diff c t = t - c - 360"
    | "shortest_diff c t = t - c + 360" using shortest_diff_cases by blast
  then show ?thesis
  proof cases
    case 1
    then show ?thesis by simp
  next
    case 2
    have "c + shortest_diff c t = py_mod t 360 + 360 * of_int (\<lfloor>t / 360\<rfloor> - 1)"
      using 2 t by simp
    then show ?thesis using r py_mod_unique by blast
  next
    case 3
    have "c + shortest_diff c t = py_mod t 360 + 360 * of_int (\<lfloor>t / 360\<rfloor> + 1)"
      using 3 t by simp
    then show ?thesis using r py_mod_unique by blast
  qed
qed

text \<open>
  \<^bold>\<open>C3.\<close> For every azimuth position the thread can hold (a value in \<open>[0, 360)\<close>) and
  every target \<open>t\<close> handed to \<^verbatim>\<open>set_target\<close>, the difference the loop computes from the
  stored target has magnitude at most 180, and the position plus that difference, taken
  modulo 360, is \<open>t\<close> modulo 360. The loop of \<^verbatim>\<open>telescope_8\<close> computes the same
  difference from its stored position and target (both in \<open>[0, 360]\<close>), with the same
  bound, and reaches the stored target modulo 360.
\<close>

theorem azimuth_shortest_delta_reaches_target:
  assumes "0 \<le> current_az s" "current_az s < 360" "az8_legal s8"
  shows "\<bar>shortest_diff (current_az s) (target_az (az_set_target s t))\<bar> \<le> 180
       \<and> py_mod (current_az s
                 + shortest_diff (current_az s) (target_az (az_set_target s t))) 360
           = py_mod t 360
       \<and> \<bar>shortest_diff (current_position s8) (of_int (target_position s8))\<bar> \<le> 180
       \<and> py_mod (current_position s8
                 + shortest_diff (current_position s8) (of_int (target_position s8))) 360
           = py_mod (of_int (target_position s8)) 360"
proof -
  have t: "target_az (az_set_target s t) = py_mod t 360" by (simp add: az_set_target_def)
  have "\<bar>shortest_diff (current_az s) (py_mod t 360)\<bar> \<le> 180"
    using assms(1,2) py_mod_360 [of t] by (intro shortest_diff_bound) simp_all
  moreover have "py_mod (current_az s + shortest_diff (current_az s) (py_mod t 360)) 360
      = py_mod (py_mod t 360) 360" by (rule shortest_diff_reaches)
  moreover have "\<bar>shortest_diff (current_position s8) (of_int (target_position s8))\<bar> \<le> 180"
    using assms(3) by (intro shortest_diff_bound) (simp_all add: az8_legal_def)
  ultimately show ?thesis by (simp add: t py_mod_idem shortest_diff_reaches)
qed

theorem azimuth_shortest_delta_reaches_target_witness:
  "0 \<le> current_az (az_init\<lparr>current_az := 350\<rparr>)
   \<and> current_az (az_init\<lparr>current_az := 350\<rparr>) < 360
   \<and> az8_legal (set_azimuth az8_init 350)
   \<and> shortest_diff 350 (target_az (az_set_target (az_init\<lparr>current_az := 350\<rparr>) 730)) = 20
   \<and> \<bar>shortest_diff 350 (target_az (az_set_target (az_init\<lparr>current_az := 350\<rparr>) 730))\<bar>
        \<le> 180
   \<and> py_mod (350 + shortest_diff 350
                 (target_az (az_set_target (az_init\<lparr>current_az := 350\<rparr>) 730))) 360
        = py_mod 730 360
   \<and> shortest_diff (current_position (set_azimuth az8_init 350))
        (of_int (target_position (set_azimuth az8_init 350))) = - 10"
  using azimuth_shortest_delta_reaches_target [of "az_init\<lparr>current_az := 350\<rparr>" "set_azimuth az8_init 350" 730]
  by (simp add: az_init_def az_set_target_def py_mod_def shortest_diff_def
      az8_legal_def az8_init_def set_azimuth_def py_int_def)

section \<open>The axis angles stay in their domains\<close>

lemma alt_apply_legal: "alt_legal s \<Longrightarrow> alt_legal (alt_apply s x)"
  by (cases x)
     (auto simp: alt_legal_def alt_set_target_def alt_set_speed_def alt_tick_def Let_def
        alt_stop_motor_def alt_move_up_def alt_move_down_def)

lemma az_apply_legal: "az_legal s \<Longrightarrow> az_legal (az_apply s x)"
  by (cases x)
     (auto simp: az_legal_def az_set_target_def az_set_speed_def az_tick_def Let_def
        az_stop_motor_def az_move_left_def az_move_right_def py_mod_360 py_mod_360_le)

lemma az8_arrive_legal: "az8_legal s \<Longrightarrow> az8_legal (az8_arrive s)"
  by (auto simp: az8_legal_def az8_arrive_def)

lemma az8_wrap_range: "0 \<le> az8_wrap p \<and> az8_wrap p \<le> 360"
  by (simp add: az8_wrap_def)

lemma az8_apply_legal: "az8_legal s \<Longrightarrow> az8_legal (az8_apply s x)"
proof (cases x)
  case (Az8SetAzimuth t)
  assume "az8_legal s"
  then show ?thesis using Az8SetAzimuth by (simp add: az8_legal_def set_azimuth_def)
next
  case (Az8Tick ok)
  assume l: "az8_legal s"
  have m: "az8_legal (s\<lparr>az8_motor := c, current_position := az8_wrap p\<rparr>)" for c p
    using l az8_wrap_range [of p] by (simp add: az8_legal_def)
  have h: "az8_legal (s\<lparr>az8_hung := True\<rparr>)" using l by (simp add: az8_legal_def)
  show ?thesis using Az8Tick l h m [THEN az8_arrive_legal]
    by (simp add: az8_tick_def)
next
  case Az8StopMotors
  assume "az8_legal s"
  then show ?thesis using Az8StopMotors by (simp add: az8_legal_def stop_motors_def)
qed

lemma alt_run_legal: "alt_legal s \<Longrightarrow> alt_legal (alt_run s ops)"
  unfolding alt_run_def by (induction ops arbitrary: s) (simp_all add: alt_apply_legal)

lemma az_run_legal: "az_legal s \<Longrightarrow> az_legal (az_run s ops)"
  unfolding az_run_def by (induction ops arbitrary: s) (simp_all add: az_apply_legal)

lemma az8_run_legal: "az8_legal s \<Longrightarrow> az8_legal (az8_run s ops)"
  unfolding az8_run_def by (induction ops arbitrary: s) (simp_all add: az8_apply_legal)

text \<open>
  \<^bold>\<open>C4, as claimed, fails\<close>: the azimuth can be 360 itself, outside \<open>[0, 360)\<close>. On the
  azimuth thread of \<^verbatim>\<open>telescope_8\<close>, from the initial state, a target of 350 makes the
  first iteration step left of 0, and the wrap of lines 163-167 puts the position on 360.
\<close>

theorem az8_position_reaches_360:
  "\<not> current_position (az8_run az8_init [Az8SetAzimuth 350, Az8Tick True]) < 360"
  by (simp add: az8_run_def az8_init_def set_azimuth_def az8_tick_def py_int_def
      shortest_diff_def az8_wrap_def az8_arrive_def)

text \<open>
  \<^bold>\<open>C4, amended.\<close> Whatever sequence of operations (set target, set speed, loop
  iteration with or without a motor fault, stop, nudge buttons) is applied to an axis whose
  angles are legal, the angles are legal afterwards: altitude position and target in
  \<open>[0, 90]\<close>, azimuth position and target in the closed range \<open>[0, 360]\<close>, in
  \<^verbatim>\<open>telescope_7\<close> and in \<^verbatim>\<open>telescope_8\<close> alike.
\<close>

theorem axis_angles_stay_legal:
  assumes "alt_legal a" "az_legal z" "az8_legal z8"
  shows "alt_legal (alt_run a aops) \<and> az_legal (az_run z zops)
       \<and> az8_legal (az8_run z8 z8ops)"
  using assms by (simp add: alt_run_legal az_run_legal az8_run_legal)

theorem axis_angles_stay_legal_witness:
  "alt_legal alt_init \<and> az_legal az_init \<and> az8_legal az8_init
   \<and> alt_legal (alt_run alt_init [AltSetTarget 95, AltSetSpeed 5, AltTick True, AltStop])
   \<and> az_legal (az_run az_init [AzSetTarget (-10), AzTick True, AzStop])
   \<and> az8_legal (az8_run az8_init [Az8SetAzimuth 350, Az8Tick True, Az8StopMotors])"
proof -
  have i: "alt_legal alt_init" "az_legal az_init" "az8_legal az8_init"
    by (simp_all add: alt_legal_def alt_init_def az_legal_def az_init_def
        az8_legal_def az8_init_def)
  show ?thesis
    using i axis_angles_stay_legal [OF i,
        of "[AltSetTarget 95, AltSetSpeed 5, AltTick True, AltStop]"
           "[AzSetTarget (-10), AzTick True, AzStop]"
           "[Az8SetAzimuth 350, Az8Tick True, Az8StopMotors]"]
    by simp
qed

section \<open>Direction of travel at exactly half a turn\<close>

text \<open>
  \<^bold>\<open>C5, as claimed, fails\<close>: with the position on 180 and the target on 0 the difference
  is exactly \<open>-180\<close>; the test \<^verbatim>\<open>abs(diff) > 180\<close> leaves it alone and the loop drives the
  motor backward, to 179.9.
\<close>

theorem half_turn_backward:
  "shortest_diff 180 0 = - 180
   \<and> az_tick True (az_init\<lparr>current_az := 180\<rparr>)
       = az_init\<lparr>current_az := 1799 / 10, az_motor := MotorBackward (1 / 5)\<rparr>"
  by (simp add: shortest_diff_def az_tick_def az_init_def py_mod_def)

text \<open>
  \<^bold>\<open>C5, amended.\<close> When target and position are exactly 180 apart, the difference is left
  as \<^verbatim>\<open>target - current\<close>: the loop turns forward when the target is the larger angle and
  backward when it is the smaller one.
\<close>

theorem half_turn_keeps_sign:
  assumes "\<bar>target_az s - current_az s\<bar> = 180"
  shows "shortest_diff (current_az s) (target_az s) = target_az s - current_az s
       \<and> az_motor (az_tick True s)
           = (if current_az s < target_az s then MotorForward (az_speed s / 5)
              else MotorBackward (az_speed s / 5))"
  using assms by (auto simp: shortest_diff_def az_tick_def Let_def)

theorem half_turn_keeps_sign_witness:
  "\<bar>target_az (az_init\<lparr>target_az := 180\<rparr>) - current_az (az_init\<lparr>target_az := 180\<rparr>)\<bar> = 180
   \<and> shortest_diff (current_az (az_init\<lparr>target_az := 180\<rparr>))
        (target_az (az_init\<lparr>target_az := 180\<rparr>)) = 180
   \<and> az_motor (az_tick True (az_init\<lparr>target_az := 180\<rparr>)) = MotorForward (1 / 5)"
  using half_turn_keeps_sign [of "az_init\<lparr>target_az := 180\<rparr>"]
  by (simp add: az_init_def)

section \<open>From 350 to 10 through the wrap\<close>

lemma az_ticks_Suc_last: "az_ticks (Suc n) s = az_tick True (az_ticks n s)"
  by (induction n arbitrary: s) simp_all

lemma py_mod_small: "0 \<le> x \<Longrightarrow> x < 360 \<Longrightarrow> py_mod x 360 = x"
  using py_mod_unique [of x x 0] by simp

lemma py_mod_one_turn: "360 \<le> x \<Longrightarrow> x < 720 \<Longrightarrow> py_mod x 360 = x - 360"
  using py_mod_unique [of "x - 360" x 1] by simp

text \<open>Where the wrap scenario stands after \<open>n\<close> iterations at full speed.\<close>

lemma wrap_scenario_pos:
  "n \<le> 40 \<Longrightarrow> py_mod (350 + real n / 2) 360 = (if n < 20 then 350 + real n / 2 else real n / 2 - 10)"
  by (auto simp: py_mod_small py_mod_one_turn)

lemma wrap_scenario_step:
  assumes "n < 40" "current_az s = py_mod (350 + real n / 2) 360" "target_az s = 10" "az_speed s = 5"
  shows "az_tick True s = s\<lparr>az_motor := MotorForward 1, current_az := py_mod (350 + real (Suc n) / 2) 360\<rparr>"
proof -
  have c: "current_az s = (if n < 20 then 350 + real n / 2 else real n / 2 - 10)"
    using assms(1,2) by (simp add: wrap_scenario_pos)
  have d: "shortest_diff (current_az s) (target_az s) = 20 - real n / 2"
    using assms(1) by (simp add: c assms(3) shortest_diff_def)
  have m: "py_mod (current_az s + 1 / 2) 360 = py_mod (350 + real (Suc n) / 2) 360"
  proof (cases "n < 20")
    case True
    then show ?thesis by (simp add: c add_divide_distrib)
  next
    case False
    then show ?thesis using assms(1)
      by (simp add: c py_mod_small py_mod_one_turn add_divide_distrib)
  qed
  have g: "\<not> \<bar>20 - real n / 2\<bar> < 1 / 10" "20 - real n / 2 > 0" using assms(1) by simp_all
  have "az_tick True s = s\<lparr>az_motor := MotorForward (az_speed s / 5),
          current_az := py_mod (current_az s + az_speed s * (1 / 10)) 360\<rparr>"
    unfolding az_tick_def Let_def d using g by simp
  also have "\<dots> = s\<lparr>az_motor := MotorForward 1, current_az := py_mod (current_az s + 1 / 2) 360\<rparr>"
    by (simp add: assms(4))
  finally show ?thesis by (simp only: m)
qed

lemma wrap_scenario_state:
  assumes "current_az s = 350" "target_az s = 10" "az_speed s = 5" "n \<le> 40"
  shows "current_az (az_ticks n s) = py_mod (350 + real n / 2) 360
       \<and> target_az (az_ticks n s) = 10 \<and> az_speed (az_ticks n s) = 5"
  using assms(4)
proof (induction n)
  case 0
  then show ?case using assms by (simp add: py_mod_small)
next
  case (Suc n)
  then have ih: "current_az (az_ticks n s) = py_mod (350 + real n / 2) 360"
    "target_az (az_ticks n s) = 10" "az_speed (az_ticks n s) = 5" and n: "n < 40" by simp_all
  show ?case
    by (simp only: az_ticks_Suc_last wrap_scenario_step [OF n ih]) (simp add: ih)
qed

text \<open>
  \<^bold>\<open>C6, as claimed, fails\<close>: \<^verbatim>\<open>set_speed\<close> caps the speed at 5, and an iteration moves
  by \<^verbatim>\<open>speed * 0.1\<close>. Asking for 100 (which would be 10 degrees an iteration) leaves the
  position on 351 after two iterations, not on the target.
\<close>

theorem wrap_scenario_two_ticks:
  "current_az (az_ticks 2
      (az_set_speed (az_set_target (az_init\<lparr>current_az := 350\<rparr>) 10) 100)) = 351
   \<and> target_az (az_ticks 2
      (az_set_speed (az_set_target (az_init\<lparr>current_az := 350\<rparr>) 10) 100)) = 10"
  by (simp add: numeral_2_eq_2 az_init_def az_set_target_def az_set_speed_def az_tick_def
      shortest_diff_def py_mod_def)

text \<open>
  \<^bold>\<open>C6, amended.\<close> No requested speed \<open>w\<close> gives a step above half a degree. At the
  cap (any request \<open>v\<close> of 5 or more), starting on 350 with target 10, the position after
  \<open>n \<le> 40\<close> iterations is \<open>(350 + n / 2) % 360\<close>: it lies in \<open>[350, 360)\<close> or in
  \<open>[0, 10]\<close> (so it never comes near 180), every iteration before the fortieth drives the
  motor forward and has not arrived, and the fortieth lands on 10, where the next
  iteration stops the motor.
\<close>

theorem wrap_scenario_forty_ticks:
  assumes "5 \<le> v" "n \<le> 40"
  shows "(let s0 = az_set_speed (az_set_target (az_init\<lparr>current_az := 350\<rparr>) 10) v;
              sn = az_ticks n s0 in
          az_speed (az_set_speed s0 w) * (1 / 10) \<le> 1 / 2
        \<and> current_az sn = py_mod (350 + real n / 2) 360
        \<and> (350 \<le> current_az sn \<or> current_az sn \<le> 10)
        \<and> (n < 40 \<longrightarrow> current_az sn \<noteq> 10 \<and> az_motor (az_tick True sn) = MotorForward 1)
        \<and> (n = 40 \<longrightarrow> current_az sn = 10
                      \<and> az_tick True sn = sn\<lparr>az_motor := MotorStopped\<rparr>))"
proof -
  define s0 where "s0 = az_set_speed (az_set_target (az_init\<lparr>current_az := 350\<rparr>) 10) v"
  have s0: "current_az s0 = 350" "target_az s0 = 10" "az_speed s0 = 5"
    using assms(1) by (simp_all add: s0_def az_set_speed_def az_set_target_def az_init_def py_mod_small)
  note st = wrap_scenario_state [OF s0 assms(2)]
  have p: "py_mod (350 + real n / 2) 360 = (if n < 20 then 350 + real n / 2 else real n / 2 - 10)"
    using assms(2) by (rule wrap_scenario_pos)
  have a: "az_speed (az_set_speed s0 w) * (1 / 10) \<le> 1 / 2"
    by (simp add: az_set_speed_def)
  have b: "350 \<le> current_az (az_ticks n s0) \<or> current_az (az_ticks n s0) \<le> 10"
    using assms(2) by (simp add: st p)
  have c: "current_az (az_ticks n s0) \<noteq> 10 \<and> az_motor (az_tick True (az_ticks n s0)) = MotorForward 1"
    if "n < 40"
  proof -
    have "az_motor (az_tick True (az_ticks n s0)) = MotorForward 1"
      using wrap_scenario_step [OF that, of "az_ticks n s0"] st by simp
    moreover have "current_az (az_ticks n s0) \<noteq> 10" using that by (simp add: st p)
    ultimately show ?thesis by simp
  qed
  have d: "current_az (az_ticks n s0) = 10 \<and> az_tick True (az_ticks n s0) = (az_ticks n s0)\<lparr>az_motor := MotorStopped\<rparr>"
    if "n = 40"
  proof -
    have "current_az (az_ticks n s0) = 10" using st p that by simp
    then show ?thesis using st by (simp add: az_tick_def shortest_diff_def)
  qed
  show ?thesis
    unfolding Let_def s0_def [symmetric] using a b c d st by blast
qed


theorem wrap_scenario_forty_ticks_witness:
  "(5::real) \<le> 5 \<and> (40::nat) \<le> 40
   \<and> current_az (az_ticks 40
        (az_set_speed (az_set_target (az_init\<lparr>current_az := 350\<rparr>) 10) 5)) = 10
   \<and> az_motor (az_tick True (az_ticks 40
        (az_set_speed (az_set_target (az_init\<lparr>current_az := 350\<rparr>) 10) 5))) = MotorStopped"
  using wrap_scenario_forty_ticks [of 5 40 100]
  by (simp add: Let_def)

section \<open>Moon phase names do not follow the side of the cycle\<close>

text \<open>
  The table lookup of \<^verbatim>\<open>telescope_8\<close> is fed \<^verbatim>\<open>phase_angle / 360\<close> with the Sun-Moon
  separation, an angle between 0 and 180: it stays in the first half of the table, where
  no waning name is.
\<close>

lemma py_mod_unit: "0 \<le> x \<Longrightarrow> x < 1 \<Longrightarrow> py_mod x 1 = x"
  by (simp add: py_mod_def floor_eq_iff)

lemma min_by_mem: "min_by key b xs \<in> set (b # xs)"
  by (induction xs arbitrary: b) auto

lemma min_by_le_all: "\<forall>x \<in> set (b # xs). key (min_by key b xs) \<le> key x"
proof (induction xs arbitrary: b)
  case Nil
  then show ?case by simp
next
  case (Cons y ys)
  let ?b = "if key y < key b then y else b"
  have le: "\<forall>z \<in> set (?b # ys). key (min_by key ?b ys) \<le> key z"
    by (rule Cons.IH)
  then have b': "key (min_by key ?b ys) \<le> key ?b" by simp
  have "key ?b \<le> key b" "key ?b \<le> key y" by auto
  then have "key (min_by key ?b ys) \<le> key b" "key (min_by key ?b ys) \<le> key y"
    using b' by linarith+
  then show ?case using le by simp
qed

lemma min_by_le: "x \<in> set (b # xs) \<Longrightarrow> key (min_by key b xs) \<le> key x"
  by (rule bspec [OF min_by_le_all])

lemma get_moon_phase_first_half:
  assumes "0 \<le> a" "a \<le> 180"
  shows "fst (get_moon_phase (a / 360))
           \<in> {''New Moon'', ''Waxing Crescent'', ''First Quarter'', ''Waxing Gibbous'',
              ''Full Moon''}"
proof -
  define p where "p = a / 360"
  have r: "0 \<le> p" "p \<le> 1 / 2" using assms by (simp_all add: p_def)
  have m: "py_mod p 1 = p" using r by (intro py_mod_unit) simp_all
  define res where "res = min_by (\<lambda>x. \<bar>snd x - p\<bar>) (hd MOON_PHASES) (tl MOON_PHASES)"
  have g: "get_moon_phase p = res" by (simp add: get_moon_phase_def m res_def)
  have l: "hd MOON_PHASES # tl MOON_PHASES = MOON_PHASES" by (simp add: MOON_PHASES_def)
  have mem: "res \<in> set MOON_PHASES"
    unfolding res_def using min_by_mem [of "\<lambda>x. \<bar>snd x - p\<bar>" "hd MOON_PHASES" "tl MOON_PHASES"]
    by (simp only: l)
  have full: "(''Full Moon'', 1 / 2) \<in> set (hd MOON_PHASES # tl MOON_PHASES)"
    by (simp only: l) (simp add: MOON_PHASES_def)
  have "\<bar>snd res - p\<bar> \<le> \<bar>snd (''Full Moon'', 1 / 2 :: real) - p\<bar>"
    unfolding res_def by (rule min_by_le [OF full])
  then have h: "snd res \<le> 1 / 2" using r by simp
  obtain nm v where rv: "res = (nm, v)" by (cases res)
  from mem h show ?thesis unfolding g [unfolded p_def] p_def [symmetric] g rv
    by (auto simp: MOON_PHASES_def)
qed

text \<open>
  \<^bold>\<open>C7\<close> says the name follows the illumination together with the side of the cycle,
  waxing or waning, the side being read off the sign of the rate of change of the
  elongation. The three implementations all carry waxing and waning names and none of
  them gets the side right. \<^verbatim>\<open>calculate_moon_phase\<close> of \<^verbatim>\<open>telescope/\<close> answers from
  the percentage alone: 75 percent is Waning Gibbous also while the Moon waxes, and its
  last branch, Waxing Gibbous, can never be taken. The widget of \<^verbatim>\<open>telescope_7\<close> names
  the same 75 percent Waxing Gibbous, also while the Moon wanes. \<^verbatim>\<open>telescope_8\<close> names a
  separation of 135 degrees Waxing Gibbous on either side.
\<close>

theorem moon_phase_side_not_computed:
  "calculate_moon_phase 75 = ''Waning Gibbous''
   \<and> calculate_moon_phase i \<noteq> ''Waxing Gibbous''
   \<and> phase_text 75 = ''Waxing Gibbous''
   \<and> fst (get_moon_phase (135 / 360)) = ''Waxing Gibbous''"
proof -
  have "fst (get_moon_phase (135 / 360)) = ''Waxing Gibbous''"
    unfolding get_moon_phase_def Let_def MOON_PHASES_def by (simp add: py_mod_def)
  then show ?thesis by (simp add: calculate_moon_phase_def phase_text_def)
qed

section \<open>A failing position calculation\<close>

lemma calc_moon_raises:
  "calculate_moon_position (Raises e) s
     = (current_moon_data s,
        s\<lparr>status_updated := status_updated s @ [''Calculation error: '' @ e]\<rparr>)"
  by (simp add: calculate_moon_position_def)

lemma moon_run_iter_raises:
  "moon_run_iter (Raises e) s
     = s\<lparr>status_updated := status_updated s @ [''Calculation error: '' @ e],
         current_moon_data := current_moon_data s,
         moon_data_updated := moon_data_updated s @ [current_moon_data s]\<rparr>"
  by (simp add: moon_run_iter_def calc_moon_raises)

lemma moon_run_iter_emits_cache:
  "moon_data_updated (moon_run_iter r s) = moon_data_updated s @ [current_moon_data (moon_run_iter r s)]"
  by (cases "calculate_moon_position r s")
     (cases r; simp add: moon_run_iter_def calculate_moon_position_def Let_def split: prod.splits)

lemma calc_sun_raises:
  "calculate_sun_position (Raises e) st
     = ((0, 0), emit st (Critical ''Error'' (take 50 (''Calc Error: '' @ take 25 e @ ''...''))))"
  by (simp add: calculate_sun_position_def show_error_def)

text \<open>
  \<^bold>\<open>C8, as claimed, fails\<close> for the Sun thread of \<^verbatim>\<open>telescope_7\<close>: after a call that
  returned 45 degrees of altitude and 180 of azimuth, a call that raises returns
  \<open>(0, 0)\<close>, not the position before.
\<close>

theorem sun_failure_returns_origin:
  "fst (calculate_sun_position (Returns (pi / 4, pi)) gui_init) = (45, 180)
   \<and> fst (calculate_sun_position (Raises ''no ephemeris'')
            (snd (calculate_sun_position (Returns (pi / 4, pi)) gui_init))) = (0, 0)"
  by (simp add: calculate_sun_position_def)

text \<open>
  \<^bold>\<open>C8, amended.\<close> A calculation that raises never passes the exception on and reports
  it on a signal. The Moon thread of \<^verbatim>\<open>telescope_8\<close> returns its cached dictionary: an
  iteration that fails after any iteration \<open>r\<close> keeps the cache and emits the same data
  again. The Sun thread of \<^verbatim>\<open>telescope_7\<close> returns the fixed position \<open>(0, 0)\<close>.
\<close>

theorem failed_calculation_is_reported:
  "fst (calculate_moon_position (Raises e) s) = current_moon_data s
   \<and> status_updated (snd (calculate_moon_position (Raises e) s))
       = status_updated s @ [''Calculation error: '' @ e]
   \<and> current_moon_data (moon_run_iter (Raises e) (moon_run_iter r s))
       = current_moon_data (moon_run_iter r s)
   \<and> last (moon_data_updated (moon_run_iter (Raises e) (moon_run_iter r s)))
       = last (moon_data_updated (moon_run_iter r s))
   \<and> fst (calculate_sun_position (Raises e) st) = (0, 0)
   \<and> events (snd (calculate_sun_position (Raises e) st))
       = events st @ [Critical ''Error'' (take 50 (''Calc Error: '' @ take 25 e @ ''...''))]"
proof -
  have a: "last (moon_data_updated (moon_run_iter r s)) = current_moon_data (moon_run_iter r s)"
    by (subst moon_run_iter_emits_cache) simp
  show ?thesis
    by (simp add: calc_moon_raises moon_run_iter_raises calc_sun_raises emit_def a)
qed

section \<open>The coordinator keeps its flags consistent\<close>

lemma gui_inv_emit [simp]: "gui_inv (emit st e) = gui_inv st"
  by (simp add: gui_inv_def emit_def)

lemma gui_inv_motor_alt [simp]: "gui_inv (motor_set_target_alt st v) = gui_inv st"
  by (simp add: gui_inv_def motor_set_target_alt_def emit_def)

lemma gui_inv_motor_az [simp]: "gui_inv (motor_set_target_az st v) = gui_inv st"
  by (simp add: gui_inv_def motor_set_target_az_def emit_def)

lemma gui_inv_alt_slider_upd [simp]: "gui_inv (st\<lparr>alt_slider := v\<rparr>) = gui_inv st"
  by (simp add: gui_inv_def)

lemma gui_inv_az_slider_upd [simp]: "gui_inv (st\<lparr>az_slider := v\<rparr>) = gui_inv st"
  by (simp add: gui_inv_def)

lemma gui_inv_alt_slider [simp]: "gui_inv (alt_slider_setValue st v) = gui_inv st"
  by (simp add: alt_slider_setValue_def Let_def)

lemma gui_inv_az_slider [simp]: "gui_inv (az_slider_setValue st v) = gui_inv st"
  by (simp add: az_slider_setValue_def Let_def)

lemma gui_inv_slew_axes [simp]: "gui_inv (slew_axes st name kind a z) = gui_inv st"
  by (simp add: slew_axes_def Let_def)

lemma gui_inv_main_sun [simp]: "gui_inv (main_slew_to_sun_position st a z) = gui_inv st"
  by (simp add: main_slew_to_sun_position_def)

lemma gui_inv_calc_sun [simp]: "gui_inv (snd (calculate_sun_position r st)) = gui_inv st"
  by (cases r) (auto simp: calculate_sun_position_def show_error_def)

lemma gui_inv_slew_to_sun [simp]: "gui_inv (slew_to_sun_position st r) = gui_inv st"
  by (cases "calculate_sun_position r st")
     (use gui_inv_calc_sun [of r st] in \<open>simp add: slew_to_sun_position_def update_sun_position_def split: prod.splits\<close>)

lemma gui_inv_sun_run_iter [simp]: "gui_inv (sun_run_iter st r) = gui_inv st"
  by (cases "calculate_sun_position r st")
     (use gui_inv_calc_sun [of r st] in \<open>simp add: sun_run_iter_def update_sun_position_def split: prod.splits\<close>)

lemma gui_inv_toggle_filter:
  "gui_inv st \<Longrightarrow> gui_inv (set_filter_check st b)"
  by (cases b)
     (auto simp: gui_inv_def set_filter_check_def toggle_filter_def state_of_def Let_def
        auto_track_btn_uncheck_def auto_track_apply_def set_auto_track_def emit_def)

lemma gui_inv_click_auto_track:
  "gui_inv st \<Longrightarrow> gui_inv (click_auto_track st)"
  by (auto simp: gui_inv_def click_auto_track_def toggle_auto_track_def state_of_def Let_def
        auto_track_btn_uncheck_def auto_track_apply_def set_auto_track_def emit_def)

lemma gui_inv_apply: "gui_inv st \<Longrightarrow> gui_inv (gui_apply st x)"
proof (cases x)
  case (SetFilter b)
  assume "gui_inv st" then show ?thesis using SetFilter by (simp add: gui_inv_toggle_filter)
next
  case ClickAutoTrack
  assume "gui_inv st" then show ?thesis using ClickAutoTrack by (simp add: gui_inv_click_auto_track)
next
  case (ClickSlew r)
  assume "gui_inv st" then show ?thesis using ClickSlew by (simp add: click_slew_def)
next
  case (SunThreadIter r)
  assume "gui_inv st" then show ?thesis using SunThreadIter by simp
next
  case (SunPositionSignal a z)
  assume "gui_inv st" then show ?thesis using SunPositionSignal by (simp add: update_sun_position_def)
next
  case (MoonPositionSignal a z)
  assume "gui_inv st" then show ?thesis using MoonPositionSignal by (simp add: main_slew_to_moon_position_def)
next
  case (AltIter ok)
  assume "gui_inv st" then show ?thesis using AltIter by (auto simp: gui_inv_def)
next
  case (AzIter ok)
  assume "gui_inv st" then show ?thesis using AzIter by (auto simp: gui_inv_def)
next
  case (AltPositionSignal v)
  assume "gui_inv st" then show ?thesis using AltPositionSignal by (simp add: update_altitude_display_def)
next
  case (AzPositionSignal v)
  assume "gui_inv st" then show ?thesis using AzPositionSignal by (simp add: update_azimuth_display_def)
qed

lemma gui_inv_run: "gui_inv st \<Longrightarrow> gui_inv (gui_run st ops)"
  unfolding gui_run_def by (induction ops arbitrary: st) (simp_all add: gui_inv_apply)

lemma gui_inv_init: "gui_inv gui_init"
  by (simp add: gui_inv_def gui_init_def)

section \<open>What the slew handlers hand to the axes\<close>

lemma motor_alt_simps [simp]:
  "events (motor_set_target_alt st v) = events st @ [AltTarget v]"
  "alt_motor_thread (motor_set_target_alt st v) = alt_set_target (alt_motor_thread st) v"
  "az_motor_thread (motor_set_target_alt st v) = az_motor_thread st"
  "alt_slider (motor_set_target_alt st v) = alt_slider st"
  "az_slider (motor_set_target_alt st v) = az_slider st"
  by (simp_all add: motor_set_target_alt_def emit_def)

lemma motor_az_simps [simp]:
  "events (motor_set_target_az st v) = events st @ [AzTarget v]"
  "alt_motor_thread (motor_set_target_az st v) = alt_motor_thread st"
  "az_motor_thread (motor_set_target_az st v) = az_set_target (az_motor_thread st) v"
  "alt_slider (motor_set_target_az st v) = alt_slider st"
  "az_slider (motor_set_target_az st v) = az_slider st"
  by (simp_all add: motor_set_target_az_def emit_def)

lemma alt_slider_simps:
  "events (alt_slider_setValue st v)
     = events st @ (if max 0 (min 90 v) = alt_slider st then []
                    else [AltTarget (of_int (max 0 (min 90 v)))])"
  "alt_motor_thread (alt_slider_setValue st v)
     = (if max 0 (min 90 v) = alt_slider st then alt_motor_thread st
        else alt_set_target (alt_motor_thread st) (of_int (max 0 (min 90 v))))"
  "az_motor_thread (alt_slider_setValue st v) = az_motor_thread st"
  "az_slider (alt_slider_setValue st v) = az_slider st"
  unfolding alt_slider_setValue_def Let_def by simp_all

lemma az_slider_simps:
  "events (az_slider_setValue st v)
     = events st @ (if max 0 (min 360 v) = az_slider st then []
                    else [AzTarget (of_int (max 0 (min 360 v)))])"
  "az_motor_thread (az_slider_setValue st v)
     = (if max 0 (min 360 v) = az_slider st then az_motor_thread st
        else az_set_target (az_motor_thread st) (of_int (max 0 (min 360 v))))"
  "alt_motor_thread (az_slider_setValue st v) = alt_motor_thread st"
  "alt_slider (az_slider_setValue st v) = alt_slider st"
  unfolding az_slider_setValue_def Let_def by simp_all

lemma emit_simps [simp]:
  "events (emit st e) = events st @ [e]"
  "alt_motor_thread (emit st e) = alt_motor_thread st"
  "az_motor_thread (emit st e) = az_motor_thread st"
  "filter_check (emit st e) = filter_check st"
  "filter_checked (emit st e) = filter_checked st"
  "auto_track (emit st e) = auto_track st"
  "auto_track_btn (emit st e) = auto_track_btn st"
  by (simp_all add: emit_def)

lemma slew_axes_events:
  "events (slew_axes st n k a z)
     = events st
       @ [AltTarget (max 0 (min 90 a))]
       @ (if max 0 (min 90 (py_int (max 0 (min 90 a)))) = alt_slider st then []
          else [AltTarget (of_int (max 0 (min 90 (py_int (max 0 (min 90 a))))))])
       @ [AzTarget (py_mod z 360)]
       @ (if max 0 (min 360 (py_int (py_mod z 360))) = az_slider st then []
          else [AzTarget (of_int (max 0 (min 360 (py_int (py_mod z 360)))))])
       @ [DbLog n k (max 0 (min 90 a)) (py_mod z 360)]"
  unfolding slew_axes_def Let_def
  by (simp only: emit_simps az_slider_simps motor_az_simps alt_slider_simps motor_alt_simps append_assoc)

lemma slew_axes_alt_thread:
  "alt_motor_thread (slew_axes st n k a z)
     = (if max 0 (min 90 (py_int (max 0 (min 90 a)))) = alt_slider st
        then alt_set_target (alt_motor_thread st) (max 0 (min 90 a))
        else alt_set_target (alt_set_target (alt_motor_thread st) (max 0 (min 90 a)))
               (of_int (max 0 (min 90 (py_int (max 0 (min 90 a)))))))"
  unfolding slew_axes_def Let_def
  by (simp only: emit_simps az_slider_simps motor_az_simps alt_slider_simps motor_alt_simps)

lemma slew_axes_az_thread:
  "az_motor_thread (slew_axes st n k a z)
     = (if max 0 (min 360 (py_int (py_mod z 360))) = az_slider st
        then az_set_target (az_motor_thread st) (py_mod z 360)
        else az_set_target (az_set_target (az_motor_thread st) (py_mod z 360))
               (of_int (max 0 (min 360 (py_int (py_mod z 360))))))"
  unfolding slew_axes_def Let_def
  by (simp only: emit_simps az_slider_simps motor_az_simps alt_slider_simps motor_alt_simps)

lemma py_int_nonneg: "0 \<le> x \<Longrightarrow> py_int x = \<lfloor>x\<rfloor>"
  by (simp add: py_int_def)

lemma target_alt_bounds:
  "0 \<le> target_alt (alt_motor_thread (slew_axes st n k a z))
   \<and> target_alt (alt_motor_thread (slew_axes st n k a z)) \<le> max 0 (min 90 a)
   \<and> max 0 (min 90 a) - 1 < target_alt (alt_motor_thread (slew_axes st n k a z))"
proof -
  define sa where "sa = max 0 (min 90 a)"
  have r: "0 \<le> sa" "sa \<le> 90" by (simp_all add: sa_def)
  have f0: "0 \<le> \<lfloor>sa\<rfloor>" using r(1) by simp
  have f1: "\<lfloor>sa\<rfloor> \<le> 90" using r(2) by (simp add: floor_le_iff)
  have g1: "of_int \<lfloor>sa\<rfloor> \<le> sa" by simp
  have g2: "sa - 1 < of_int \<lfloor>sa\<rfloor>" by linarith
  have c: "max 0 (min 90 (py_int sa)) = \<lfloor>sa\<rfloor>"
    using f0 f1 r(1) by (simp add: py_int_nonneg)
  have t1: "target_alt (alt_set_target s sa) = sa" for s
    using r by (simp add: alt_set_target_def)
  have t2: "target_alt (alt_set_target s (of_int \<lfloor>sa\<rfloor>)) = of_int \<lfloor>sa\<rfloor>" for s
    using f0 f1 by (simp add: alt_set_target_def)
  have "target_alt (alt_motor_thread (slew_axes st n k a z)) = sa
      \<or> target_alt (alt_motor_thread (slew_axes st n k a z)) = of_int \<lfloor>sa\<rfloor>"
    unfolding slew_axes_alt_thread sa_def [symmetric] c
    by (cases "\<lfloor>sa\<rfloor> = alt_slider st") (simp_all only: t1 t2 if_True if_False simp_thms)
  then show ?thesis unfolding sa_def [symmetric] using r g1 g2 f0 by auto
qed

lemma target_az_bounds:
  "0 \<le> target_az (az_motor_thread (slew_axes st n k a z))
   \<and> target_az (az_motor_thread (slew_axes st n k a z)) \<le> py_mod z 360
   \<and> py_mod z 360 - 1 < target_az (az_motor_thread (slew_axes st n k a z))"
proof -
  define sz where "sz = py_mod z 360"
  have r: "0 \<le> sz" "sz < 360" by (simp_all add: sz_def py_mod_360)
  have f0: "0 \<le> \<lfloor>sz\<rfloor>" using r(1) by simp
  have f1: "\<lfloor>sz\<rfloor> < 360" using r(2) by (simp add: floor_less_iff)
  have g1: "of_int \<lfloor>sz\<rfloor> \<le> sz" by simp
  have g2: "sz - 1 < of_int \<lfloor>sz\<rfloor>" by linarith
  have c: "max 0 (min 360 (py_int sz)) = \<lfloor>sz\<rfloor>"
    using f0 f1 r(1) by (simp add: py_int_nonneg)
  have t1: "target_az (az_set_target s sz) = sz" for s
    using r by (simp add: az_set_target_def py_mod_small)
  have t2: "target_az (az_set_target s (of_int \<lfloor>sz\<rfloor>)) = of_int \<lfloor>sz\<rfloor>" for s
    using f0 f1 by (simp add: az_set_target_def py_mod_small)
  have "target_az (az_motor_thread (slew_axes st n k a z)) = sz
      \<or> target_az (az_motor_thread (slew_axes st n k a z)) = of_int \<lfloor>sz\<rfloor>"
    unfolding slew_axes_az_thread sz_def [symmetric] c
    by (cases "\<lfloor>sz\<rfloor> = az_slider st") (simp_all only: t1 t2 if_True if_False simp_thms)
  then show ?thesis unfolding sz_def [symmetric] using r g1 g2 f0 by auto
qed

lemma drop_length_append: "drop (length xs) (xs @ ys) = ys"
  by simp

lemma slew_axes_new_events:
  "drop (length (events st)) (events (slew_axes st n k a z))
     = [AltTarget (max 0 (min 90 a))]
       @ (if max 0 (min 90 (py_int (max 0 (min 90 a)))) = alt_slider st then []
          else [AltTarget (of_int (max 0 (min 90 (py_int (max 0 (min 90 a))))))])
       @ [AzTarget (py_mod z 360)]
       @ (if max 0 (min 360 (py_int (py_mod z 360))) = az_slider st then []
          else [AzTarget (of_int (max 0 (min 360 (py_int (py_mod z 360)))))])
       @ [DbLog n k (max 0 (min 90 a)) (py_mod z 360)]"
  unfolding slew_axes_events by (rule drop_length_append)

lemma slew_axes_trace:
  "hd (drop (length (events st)) (events (slew_axes st n k a z))) = AltTarget (max 0 (min 90 a))"
  "AzTarget (py_mod z 360) \<in> set (drop (length (events st)) (events (slew_axes st n k a z)))"
  "last (drop (length (events st)) (events (slew_axes st n k a z)))
     = DbLog n k (max 0 (min 90 a)) (py_mod z 360)"
  "set (drop (length (events st)) (events (slew_axes st n k a z)))
     \<subseteq> range AltTarget \<union> range AzTarget \<union> {DbLog n k (max 0 (min 90 a)) (py_mod z 360)}"
  unfolding slew_axes_new_events by auto

lemma slew_axes_below_horizon:
  "a \<le> 0 \<Longrightarrow> target_alt (alt_motor_thread (slew_axes st n k a z)) = 0"
  using target_alt_bounds [of st n k a z] by simp

text \<open>
  \<^bold>\<open>C10, as claimed, fails\<close> for the Sun handler: with the filter box unchecked it
  rejects every position. Handed altitude 45 and azimuth 180 in the initial state it only
  opens the warning dialog; the altitude target stays 0.
\<close>

theorem sun_slew_rejected_without_filter:
  "main_slew_to_sun_position gui_init 45 180
     = emit gui_init (Critical ''SOLAR WARNING''
         (''SOLAR FILTER REQUIRED!'' @ [CHR 0x0A] @ ''Aborting sun slew.''))
   \<and> target_alt (alt_motor_thread (main_slew_to_sun_position gui_init 45 180)) = 0"
  by (simp add: main_slew_to_sun_position_def gui_init_def emit_def alt_init_def)

text \<open>
  \<^bold>\<open>C10, amended.\<close> No position is rejected for what it is. The Moon handler always,
  and the Sun handler whenever the filter box is checked, first calls \<^verbatim>\<open>set_target\<close> on
  the altitude thread with the altitude clamped into \<open>[0, 90]\<close>, calls \<^verbatim>\<open>set_target\<close> on
  the azimuth thread with the azimuth modulo 360, sends nothing but target commands and
  the log entry carrying these two values (no dialog), and leaves targets that are legal
  and within one degree below the clamped and wrapped values. A body at or below the horizon
  leaves the altitude target on 0.
\<close>

theorem slew_handlers_clamp_and_wrap:
  "(let st' = main_slew_to_moon_position st a z;
        new = drop (length (events st)) (events st') in
      hd new = AltTarget (max 0 (min 90 a))
      \<and> AzTarget (py_mod z 360) \<in> set new
      \<and> last new = DbLog ''Moon'' ''goto_moon'' (max 0 (min 90 a)) (py_mod z 360)
      \<and> set new \<subseteq> range AltTarget \<union> range AzTarget
                    \<union> {DbLog ''Moon'' ''goto_moon'' (max 0 (min 90 a)) (py_mod z 360)}
      \<and> 0 \<le> target_alt (alt_motor_thread st')
      \<and> target_alt (alt_motor_thread st') \<le> max 0 (min 90 a)
      \<and> max 0 (min 90 a) - 1 < target_alt (alt_motor_thread st')
      \<and> 0 \<le> target_az (az_motor_thread st')
      \<and> target_az (az_motor_thread st') \<le> py_mod z 360
      \<and> py_mod z 360 - 1 < target_az (az_motor_thread st')
      \<and> (a \<le> 0 \<longrightarrow> target_alt (alt_motor_thread st') = 0))
   \<and> (filter_check st \<longrightarrow>
       (let st' = main_slew_to_sun_position st a z;
            new = drop (length (events st)) (events st') in
          hd new = AltTarget (max 0 (min 90 a))
          \<and> AzTarget (py_mod z 360) \<in> set new
          \<and> last new = DbLog ''Sun'' ''goto_sun'' (max 0 (min 90 a)) (py_mod z 360)
          \<and> set new \<subseteq> range AltTarget \<union> range AzTarget
                        \<union> {DbLog ''Sun'' ''goto_sun'' (max 0 (min 90 a)) (py_mod z 360)}
          \<and> 0 \<le> target_alt (alt_motor_thread st')
          \<and> target_alt (alt_motor_thread st') \<le> max 0 (min 90 a)
          \<and> max 0 (min 90 a) - 1 < target_alt (alt_motor_thread st')
          \<and> 0 \<le> target_az (az_motor_thread st')
          \<and> target_az (az_motor_thread st') \<le> py_mod z 360
          \<and> py_mod z 360 - 1 < target_az (az_motor_thread st')
          \<and> (a \<le> 0 \<longrightarrow> target_alt (alt_motor_thread st') = 0)))"
proof -
  have m: "main_slew_to_moon_position st a z = slew_axes st ''Moon'' ''goto_moon'' a z"
    by (simp add: main_slew_to_moon_position_def)
  have s: "main_slew_to_sun_position st a z = slew_axes st ''Sun'' ''goto_sun'' a z"
    if "filter_check st" using that by (simp add: main_slew_to_sun_position_def)
  have p: "(let st' = slew_axes st n k a z;
        new = drop (length (events st)) (events st') in
      hd new = AltTarget (max 0 (min 90 a))
      \<and> AzTarget (py_mod z 360) \<in> set new
      \<and> last new = DbLog n k (max 0 (min 90 a)) (py_mod z 360)
      \<and> set new \<subseteq> range AltTarget \<union> range AzTarget
                    \<union> {DbLog n k (max 0 (min 90 a)) (py_mod z 360)}
      \<and> 0 \<le> target_alt (alt_motor_thread st')
      \<and> target_alt (alt_motor_thread st') \<le> max 0 (min 90 a)
      \<and> max 0 (min 90 a) - 1 < target_alt (alt_motor_thread st')
      \<and> 0 \<le> target_az (az_motor_thread st')
      \<and> target_az (az_motor_thread st') \<le> py_mod z 360
      \<and> py_mod z 360 - 1 < target_az (az_motor_thread st')
      \<and> (a \<le> 0 \<longrightarrow> target_alt (alt_motor_thread st') = 0))" for n k
    unfolding Let_def
    using slew_axes_trace [where st = st and n = n and k = k and a = a and z = z]
      target_alt_bounds [where st = st and n = n and k = k and a = a and z = z]
      target_az_bounds [where st = st and n = n and k = k and a = a and z = z]
      slew_axes_below_horizon [where st = st and n = n and k = k and a = a and z = z]
    by blast
  show ?thesis
  proof (intro conjI impI)
    show "let st' = main_slew_to_moon_position st a z;
        new = drop (length (events st)) (events st') in
      hd new = AltTarget (max 0 (min 90 a))
      \<and> AzTarget (py_mod z 360) \<in> set new
      \<and> last new = DbLog ''Moon'' ''goto_moon'' (max 0 (min 90 a)) (py_mod z 360)
      \<and> set new \<subseteq> range AltTarget \<union> range AzTarget
                    \<union> {DbLog ''Moon'' ''goto_moon'' (max 0 (min 90 a)) (py_mod z 360)}
      \<and> 0 \<le> target_alt (alt_motor_thread st')
      \<and> target_alt (alt_motor_thread st') \<le> max 0 (min 90 a)
      \<and> max 0 (min 90 a) - 1 < target_alt (alt_motor_thread st')
      \<and> 0 \<le> target_az (az_motor_thread st')
      \<and> target_az (az_motor_thread st') \<le> py_mod z 360
      \<and> py_mod z 360 - 1 < target_az (az_motor_thread st')
      \<and> (a \<le> 0 \<longrightarrow> target_alt (alt_motor_thread st') = 0)"
      unfolding m by (rule p)
  next
    assume f: "filter_check st"
    show "let st' = main_slew_to_sun_position st a z;
            new = drop (length (events st)) (events st') in
          hd new = AltTarget (max 0 (min 90 a))
          \<and> AzTarget (py_mod z 360) \<in> set new
          \<and> last new = DbLog ''Sun'' ''goto_sun'' (max 0 (min 90 a)) (py_mod z 360)
          \<and> set new \<subseteq> range AltTarget \<union> range AzTarget
                        \<union> {DbLog ''Sun'' ''goto_sun'' (max 0 (min 90 a)) (py_mod z 360)}
          \<and> 0 \<le> target_alt (alt_motor_thread st')
          \<and> target_alt (alt_motor_thread st') \<le> max 0 (min 90 a)
          \<and> max 0 (min 90 a) - 1 < target_alt (alt_motor_thread st')
          \<and> 0 \<le> target_az (az_motor_thread st')
          \<and> target_az (az_motor_thread st') \<le> py_mod z 360
          \<and> py_mod z 360 - 1 < target_az (az_motor_thread st')
          \<and> (a \<le> 0 \<longrightarrow> target_alt (alt_motor_thread st') = 0)"
      unfolding s [OF f] by (rule p)
  qed
qed

theorem slew_handlers_clamp_and_wrap_witness:
  "filter_check (gui_init\<lparr>filter_check := True\<rparr>) \<and> (- 5 :: real) \<le> 0
   \<and> target_alt (alt_motor_thread
         (main_slew_to_sun_position (gui_init\<lparr>filter_check := True\<rparr>) (- 5) 370)) = 0
   \<and> target_alt (alt_motor_thread
         (main_slew_to_moon_position (gui_init\<lparr>filter_check := True\<rparr>) (- 5) 370)) = 0"
  using slew_handlers_clamp_and_wrap [of "gui_init\<lparr>filter_check := True\<rparr>" "- 5" 370]
  by (simp add: Let_def)


section \<open>The solar filter interlock\<close>

text \<open>States between handlers with the filter box unchecked.\<close>

lemma unconfirmed_flags:
  assumes "gui_inv st" "\<not> filter_check st"
  shows "\<not> filter_checked st" "\<not> slew_btn_enabled st" "\<not> auto_track_btn_enabled st"
    "\<not> auto_track st" "\<not> auto_track_btn st"
  using assms by (auto simp: gui_inv_def)

lemma unconfirmed_rejects:
  assumes "gui_inv st" "\<not> filter_check st"
  shows "slew_to_sun_position st r
           = emit st (Critical ''SAFETY WARNING''
               (''Solar filter required!'' @ [CHR 0x0A] @ ''Damage risk!''))"
    and "main_slew_to_sun_position st a z
           = emit st (Critical ''SOLAR WARNING''
               (''SOLAR FILTER REQUIRED!'' @ [CHR 0x0A] @ ''Aborting sun slew.''))"
    and "toggle_auto_track st Checked
           = emit st (Critical ''SAFETY ERROR'' ''Solar filter required!'')"
    and "sun_run_iter st r = st"
    and "click_slew st r = st"
    and "click_auto_track st = st"
proof -
  note f = unconfirmed_flags [OF assms]
  show "slew_to_sun_position st r
           = emit st (Critical ''SAFETY WARNING''
               (''Solar filter required!'' @ [CHR 0x0A] @ ''Damage risk!''))"
    using f by (simp add: slew_to_sun_position_def)
  show "main_slew_to_sun_position st a z
           = emit st (Critical ''SOLAR WARNING''
               (''SOLAR FILTER REQUIRED!'' @ [CHR 0x0A] @ ''Aborting sun slew.''))"
    using assms(2) by (simp add: main_slew_to_sun_position_def)
  show "toggle_auto_track st Checked
           = emit st (Critical ''SAFETY ERROR'' ''Solar filter required!'')"
    using f by (simp add: toggle_auto_track_def auto_track_btn_uncheck_def)
  show "sun_run_iter st r = st" using f by (simp add: sun_run_iter_def)
  show "click_slew st r = st" using f by (simp add: click_slew_def)
  show "click_auto_track st = st" using f by (simp add: click_auto_track_def)
qed

lemma checked_box_rejected:
  assumes "gui_inv st" "\<not> filter_check st"
  shows "toggle_auto_track (st\<lparr>auto_track_btn := True\<rparr>) Checked
           = st\<lparr>auto_track_btn := False, auto_track := False,
                events := events st @ [Critical ''SAFETY ERROR'' ''Solar filter required!'',
                                       AutoTrackCheck False, Information ''Auto Track'']\<rparr>"
  using unconfirmed_flags [OF assms]
  by (simp add: toggle_auto_track_def auto_track_btn_uncheck_def auto_track_apply_def
      set_auto_track_def emit_def)

lemma confirm_sets_flags:
  assumes "gui_inv st" "\<not> filter_check st"
  shows "set_filter_check st True
           = st\<lparr>filter_check := True, filter_checked := True, slew_btn_enabled := True,
                auto_track_btn_enabled := True\<rparr>"
  using assms by (simp add: set_filter_check_def toggle_filter_def state_of_def)

lemma confirmed_accepts:
  assumes "gui_inv st" "\<not> filter_check st"
  shows "auto_track (toggle_auto_track (set_filter_check st True) Checked)"
    and "events (toggle_auto_track (set_filter_check st True) Checked)
           = events st @ [AutoTrackCheck True, Information ''Auto Track'']"
    and "auto_track (click_auto_track (set_filter_check st True))"
    and "slew_to_sun_position (set_filter_check st True) (Returns (ar, zr))
           = emit (main_slew_to_sun_position (set_filter_check st True)
                     (ar * 180 / pi) (zr * 180 / pi)) (Information ''Slew to Sun'')"
    and "main_slew_to_sun_position (set_filter_check st True) a z
           = slew_axes (set_filter_check st True) ''Sun'' ''goto_sun'' a z"
proof -
  note f = unconfirmed_flags [OF assms]
  note c = confirm_sets_flags [OF assms]
  show "auto_track (toggle_auto_track (set_filter_check st True) Checked)"
    by (simp add: c toggle_auto_track_def auto_track_apply_def set_auto_track_def emit_def)
  show "events (toggle_auto_track (set_filter_check st True) Checked)
           = events st @ [AutoTrackCheck True, Information ''Auto Track'']"
    by (simp add: c toggle_auto_track_def auto_track_apply_def set_auto_track_def emit_def)
  show "auto_track (click_auto_track (set_filter_check st True))"
    using f by (simp add: c click_auto_track_def state_of_def toggle_auto_track_def
        auto_track_apply_def set_auto_track_def emit_def)
  show "slew_to_sun_position (set_filter_check st True) (Returns (ar, zr))
           = emit (main_slew_to_sun_position (set_filter_check st True)
                     (ar * 180 / pi) (zr * 180 / pi)) (Information ''Slew to Sun'')"
    by (simp add: c slew_to_sun_position_def calculate_sun_position_def update_sun_position_def)
  show "main_slew_to_sun_position (set_filter_check st True) a z
           = slew_axes (set_filter_check st True) ''Sun'' ''goto_sun'' a z"
    by (simp add: c main_slew_to_sun_position_def)
qed

lemma set_filter_check_result [simp]: "filter_check (set_filter_check st b) = b"
  by (cases b)
     (auto simp: set_filter_check_def toggle_filter_def state_of_def Let_def
        auto_track_btn_uncheck_def auto_track_apply_def set_auto_track_def emit_def)

lemma set_filter_check_threads [simp]:
  "alt_motor_thread (set_filter_check st b) = alt_motor_thread st"
  "az_motor_thread (set_filter_check st b) = az_motor_thread st"
  by (auto simp: set_filter_check_def toggle_filter_def state_of_def Let_def
        auto_track_btn_uncheck_def auto_track_apply_def set_auto_track_def emit_def)

lemma reachable_inv: "gui_inv (gui_run gui_init ops)"
  by (rule gui_inv_run) (rule gui_inv_init)

text \<open>
  \<^bold>\<open>C1.\<close> In every state the coordinator can reach with the filter box unchecked, each
  way of starting motion toward the Sun is rejected: the widget's slew handler, the main
  window's Sun handler and \<^verbatim>\<open>toggle_auto_track\<close> with \<^verbatim>\<open>Qt.Checked\<close> change nothing but
  the trace, to which they add their critical dialog (when the auto-track box had been
  checked behind the disabled control, the handler unchecks it again and reports tracking
  off); auto-tracking is off and stays off, and an iteration of the tracking thread does
  nothing. Once the box is checked, the same
  \<^verbatim>\<open>toggle_auto_track\<close> switches auto-tracking on and tells the main window, and the same
  slew handler passes the Sun's position to the main window's handler, which sends the
  clamped altitude to the altitude thread and logs the move.
\<close>

theorem sun_motion_needs_filter:
  assumes "\<not> filter_check (gui_run gui_init ops)"
  shows "(let st = gui_run gui_init ops; sc = set_filter_check st True in
      slew_to_sun_position st r
        = emit st (Critical ''SAFETY WARNING''
            (''Solar filter required!'' @ [CHR 0x0A] @ ''Damage risk!''))
    \<and> main_slew_to_sun_position st a z
        = emit st (Critical ''SOLAR WARNING''
            (''SOLAR FILTER REQUIRED!'' @ [CHR 0x0A] @ ''Aborting sun slew.''))
    \<and> toggle_auto_track st Checked
        = emit st (Critical ''SAFETY ERROR'' ''Solar filter required!'')
    \<and> toggle_auto_track (st\<lparr>auto_track_btn := True\<rparr>) Checked
        = st\<lparr>auto_track_btn := False, auto_track := False,
             events := events st @ [Critical ''SAFETY ERROR'' ''Solar filter required!'',
                                    AutoTrackCheck False, Information ''Auto Track'']\<rparr>
    \<and> \<not> auto_track st
    \<and> sun_run_iter st r = st
    \<and> filter_check sc
    \<and> auto_track (toggle_auto_track sc Checked)
    \<and> events (toggle_auto_track sc Checked)
        = events st @ [AutoTrackCheck True, Information ''Auto Track'']
    \<and> slew_to_sun_position sc (Returns (ar, zr))
        = emit (main_slew_to_sun_position sc (ar * 180 / pi) (zr * 180 / pi))
            (Information ''Slew to Sun'')
    \<and> hd (drop (length (events sc)) (events (main_slew_to_sun_position sc a z)))
        = AltTarget (max 0 (min 90 a))
    \<and> last (drop (length (events sc)) (events (main_slew_to_sun_position sc a z)))
        = DbLog ''Sun'' ''goto_sun'' (max 0 (min 90 a)) (py_mod z 360))"
proof -
  define st where "st = gui_run gui_init ops"
  have i: "gui_inv st" unfolding st_def by (rule reachable_inv)
  have n: "\<not> filter_check st" unfolding st_def by (rule assms)
  note rej = unconfirmed_rejects [OF i n]
  note acc = confirmed_accepts [OF i n]
  have t: "hd (drop (length (events (set_filter_check st True)))
                (events (main_slew_to_sun_position (set_filter_check st True) a z)))
             = AltTarget (max 0 (min 90 a))"
    "last (drop (length (events (set_filter_check st True)))
                (events (main_slew_to_sun_position (set_filter_check st True) a z)))
             = DbLog ''Sun'' ''goto_sun'' (max 0 (min 90 a)) (py_mod z 360)"
    unfolding acc(5) by (rule slew_axes_trace)+
  have fc: "filter_check (set_filter_check st True)" by simp
  show ?thesis
    unfolding Let_def st_def [symmetric]
    using rej(1) [of r] rej(2) [of a z] rej(3) rej(4) [of r] unconfirmed_flags(4) [OF i n]
      acc(1) acc(2) acc(4) [of ar zr] t fc checked_box_rejected [OF i n]
    by (intro conjI) assumption+
qed

theorem sun_motion_needs_filter_witness:
  "\<not> filter_check (gui_run gui_init [SetFilter True, SetFilter False])
   \<and> \<not> auto_track (gui_run gui_init [SetFilter True, SetFilter False])
   \<and> toggle_auto_track (gui_run gui_init [SetFilter True, SetFilter False]) Checked
       = emit (gui_run gui_init [SetFilter True, SetFilter False])
           (Critical ''SAFETY ERROR'' ''Solar filter required!'')
   \<and> auto_track (toggle_auto_track
        (set_filter_check (gui_run gui_init [SetFilter True, SetFilter False]) True) Checked)"
proof -
  have h: "\<not> filter_check (gui_run gui_init [SetFilter True, SetFilter False])"
    by (simp add: gui_run_def)
  show ?thesis
    using h sun_motion_needs_filter [OF h, of "Raises []" 0 0 0 0]
    by (simp add: Let_def)
qed

text \<open>
  \<^bold>\<open>C2, as claimed, fails\<close>: unchecking the filter box switches auto-tracking off but
  leaves the axes their targets. After a tracked Sun position of 45 degrees altitude the
  box is unchecked; the next iteration of the altitude thread still drives the motor
  forward, from 0 to 0.1, toward that position.
\<close>

theorem axis_keeps_moving_after_revocation:
  "(let st = gui_run gui_init
        [SetFilter True, ClickAutoTrack, SunThreadIter (Returns (pi / 4, pi)), SetFilter False];
        st' = gui_apply st (AltIter True) in
     \<not> filter_check st \<and> \<not> auto_track st
     \<and> target_alt (alt_motor_thread st) = 45
     \<and> current_alt (alt_motor_thread st) = 0
     \<and> current_alt (alt_motor_thread st') = 1 / 10
     \<and> alt_motor (alt_motor_thread st') = MotorForward (1 / 5))"
  by (simp add: gui_run_def gui_init_def set_filter_check_def toggle_filter_def state_of_def
      click_auto_track_def toggle_auto_track_def auto_track_apply_def set_auto_track_def
      auto_track_btn_uncheck_def emit_def sun_run_iter_def calculate_sun_position_def
      update_sun_position_def main_slew_to_sun_position_def slew_axes_def Let_def
      motor_set_target_alt_def motor_set_target_az_def alt_slider_setValue_def
      az_slider_setValue_def alt_set_target_def az_set_target_def py_int_def py_mod_def
      alt_init_def az_init_def alt_tick_def)

text \<open>
  \<^bold>\<open>C2, amended.\<close> In every state the coordinator can reach, unchecking the filter box
  ends with the box, the widget's flag, both Sun controls and auto-tracking off, inside
  the handler itself. From that state an iteration of the tracking thread and clicks on
  the disabled controls change nothing, and a Sun position that still arrives leaves both
  motor threads as they are. The handler itself does not touch the motor threads: after
  it they hold the position, target, speed and motor command they held before it.
\<close>

theorem filter_revocation_switches_tracking_off:
  "(let st = gui_run gui_init ops; st' = set_filter_check st False in
      \<not> filter_check st' \<and> \<not> filter_checked st'
    \<and> \<not> auto_track st' \<and> \<not> auto_track_btn st'
    \<and> \<not> slew_btn_enabled st' \<and> \<not> auto_track_btn_enabled st'
    \<and> sun_run_iter st' r = st'
    \<and> click_slew st' r = st'
    \<and> click_auto_track st' = st'
    \<and> alt_motor_thread (update_sun_position st' a z) = alt_motor_thread st'
    \<and> az_motor_thread (update_sun_position st' a z) = az_motor_thread st'
    \<and> alt_motor_thread st' = alt_motor_thread st
    \<and> az_motor_thread st' = az_motor_thread st)"
proof -
  define st where "st = gui_run gui_init ops"
  define st' where "st' = set_filter_check st False"
  have "gui_inv st" unfolding st_def by (rule reachable_inv)
  then have i: "gui_inv st'" unfolding st'_def by (rule gui_inv_toggle_filter)
  have n: "\<not> filter_check st'" unfolding st'_def by simp
  note f = unconfirmed_flags [OF i n]
  note rej = unconfirmed_rejects [OF i n]
  have u: "alt_motor_thread (update_sun_position st' a z) = alt_motor_thread st'"
    "az_motor_thread (update_sun_position st' a z) = az_motor_thread st'"
    by (simp_all add: update_sun_position_def rej(2))
  have k: "alt_motor_thread st' = alt_motor_thread st" "az_motor_thread st' = az_motor_thread st"
    unfolding st'_def by simp_all
  show ?thesis
    unfolding Let_def st_def [symmetric] st'_def [symmetric]
    using n f rej(4) [of r] rej(5) [of r] rej(6) u k
    by (intro conjI) assumption+
qed

end
